theory Spec2Isabelle
  imports Complex_Main
begin

section \<open>The HOCR parser and the OCR text view of the NVDA OCR plugin\<close>

text \<open>
  A shallow embedding of \<^verbatim>\<open>addon/globalPlugins/ocr/__init__.py\<close>: the class
  \<^verbatim>\<open>HocrParser\<close> (the three expat handlers and the constructor that runs them) and the
  class \<^verbatim>\<open>OcrTextInfo\<close> (the offset queries over a parsed document).

  Conventions of the embedding.
  \<^item> A Python \<^verbatim>\<open>str\<close> is a \<open>string\<close>; each \<open>char\<close> stands for one code point in
    the range 0..255, so \<open>length\<close> is Python's \<^verbatim>\<open>len\<close> on such strings.
  \<^item> A Python \<^verbatim>\<open>int\<close> is an \<open>int\<close>. A coordinate (the capture origin, and the
    \<^verbatim>\<open>float\<close> that \<^verbatim>\<open>/\<close> produces) is a \<open>real\<close>: the exact value. Every coordinate the
    parser forms is \<open>origin + n / 2\<close>, which binary64 represents exactly as long as the
    magnitudes stay below \<open>2 ^ 52\<close>; statements about coordinates carry that bound.
    A quotient beyond the range of binary64 raises \<^verbatim>\<open>OverflowError\<close>, as in the code.
  \<^item> An exception is a value \<open>Inl e\<close> of the sum type \<open>error + 'a\<close>.
  \<^item> The expat tokeniser is not part of the program. Its run on a markup string is given
    by the handler calls it makes, in document order, and by the form of the string
    (record \<open>markup\<close>): well formed, cut off before its end, or with an error in the
    part that is there.
  \<^item> The \<^verbatim>\<open>print\<close> calls of the handlers write to standard output only and are left out.
\<close>

subsection \<open>Python built-ins used by the parser\<close>

datatype error =
    KeyError | AttributeError | ValueError | OverflowError | ZeroDivisionError
  | UnboundLocalError | ExpatError

text \<open>\<^verbatim>\<open>str.isspace\<close>: the string is not empty and every character is whitespace. Among the
  code points 0..255 the whitespace characters are 9..13, 28..32, 133 and 160.\<close>

definition isspace_char :: "char \<Rightarrow> bool" where
  "isspace_char c = ((of_char c :: nat) \<in> {9, 10, 11, 12, 13, 28, 29, 30, 31, 32, 133, 160})"

definition isspace :: "string \<Rightarrow> bool" where
  "isspace data = (data \<noteq> [] \<and> list_all isspace_char data)"

text \<open>\<^verbatim>\<open>title.split(" ")\<close>: cut at every single space; adjacent spaces give empty pieces and
  the empty string gives one empty piece.\<close>

fun split_space :: "string \<Rightarrow> string list" where
  "split_space [] = [[]]"
| "split_space (c # cs) =
     (if c = CHR '' '' then [] # split_space cs
      else (case split_space cs of
              [] \<Rightarrow> [[c]]
            | piece # pieces \<Rightarrow> (c # piece) # pieces))"

text \<open>\<^verbatim>\<open>int(s)\<close> on a string: surrounding whitespace is dropped (here 9..13, 32, 133, 160:
  the separators 28..31 are not dropped by \<^verbatim>\<open>int\<close>), then an optional sign, then decimal
  digits in which single underscores may stand between two digits. Anything else raises
  \<^verbatim>\<open>ValueError\<close>, the value \<open>None\<close> here; so does a string of more digits than
  \<^verbatim>\<open>sys.int_max_str_digits\<close>, 4300 unless the interpreter is configured otherwise.\<close>

definition int_max_str_digits :: nat where
  "int_max_str_digits = 4300"

definition int_space_char :: "char \<Rightarrow> bool" where
  "int_space_char c = ((of_char c :: nat) \<in> {9, 10, 11, 12, 13, 32, 133, 160})"

definition digit_char :: "char \<Rightarrow> bool" where
  "digit_char c = (48 \<le> (of_char c :: nat) \<and> (of_char c :: nat) \<le> 57)"

definition digit_val :: "char \<Rightarrow> int" where
  "digit_val c = int (of_char c) - 48"

fun digits_ok :: "string \<Rightarrow> bool" where
  "digits_ok [] = False"
| "digits_ok [c] = digit_char c"
| "digits_ok (c # d # cs) =
     (digit_char c \<and>
      (if d = CHR ''_'' then digits_ok cs else digits_ok (d # cs)))"

fun digits_value :: "int \<Rightarrow> string \<Rightarrow> int" where
  "digits_value acc [] = acc"
| "digits_value acc (c # cs) =
     (if c = CHR ''_'' then digits_value acc cs
      else digits_value (10 * acc + digit_val c) cs)"

definition strip_int_space :: "string \<Rightarrow> string" where
  "strip_int_space s = rev (dropWhile int_space_char (rev (dropWhile int_space_char s)))"

definition digits_int :: "string \<Rightarrow> int option" where
  "digits_int ds =
     (if digits_ok ds \<and> length (filter digit_char ds) \<le> int_max_str_digits
      then Some (digits_value 0 ds) else None)"

definition py_int :: "string \<Rightarrow> int option" where
  "py_int s =
     (case strip_int_space s of
        [] \<Rightarrow> None
      | c # cs \<Rightarrow>
          if c = CHR ''-'' then map_option uminus (digits_int cs)
          else if c = CHR ''+'' then digits_int cs
          else digits_int (c # cs))"

text \<open>\<^verbatim>\<open>a / b\<close> on two integers: the quotient as a float. It raises
  \<^verbatim>\<open>ZeroDivisionError\<close> for \<open>b = 0\<close> and \<^verbatim>\<open>OverflowError\<close> when the quotient rounds to no
  finite binary64 number, that is from \<open>2 ^ 1024 - 2 ^ 970\<close> on in magnitude.\<close>

definition truediv :: "int \<Rightarrow> int \<Rightarrow> error + real" where
  "truediv a b =
     (if b = 0 then Inl ZeroDivisionError
      else if 2 ^ 1024 - 2 ^ 970 \<le> \<bar>real_of_int a / real_of_int b\<bar> then Inl OverflowError
      else Inr (real_of_int a / real_of_int b))"

text \<open>\<^verbatim>\<open>int(x)\<close> on a float rounds toward zero.\<close>

definition int_of_float :: "real \<Rightarrow> int" where
  "int_of_float x = (if 0 \<le> x then \<lfloor>x\<rfloor> else \<lceil>x\<rceil>)"

text \<open>\<^verbatim>\<open>seq[start:end]\<close>: a negative index counts from the end, and both indices are
  clamped to the sequence.\<close>

definition slice_index :: "nat \<Rightarrow> int \<Rightarrow> nat" where
  "slice_index n i = (if i < 0 then nat (max (int n + i) 0) else min (nat i) n)"

definition py_slice :: "'a list \<Rightarrow> int \<Rightarrow> int \<Rightarrow> 'a list" where
  "py_slice xs start stop =
     (let lo = slice_index (length xs) start; hi = slice_index (length xs) stop
      in take (hi - lo) (drop lo xs))"

subsection \<open>The parser\<close>

definition IMAGE_RESIZE_FACTOR :: int where
  "IMAGE_RESIZE_FACTOR = 2"

record OcrWord =
  offset :: int
  left :: real
  top' :: real

text \<open>The attributes of the parser object. \<open>building\<close> is the object while expat runs (it
  has \<^verbatim>\<open>_textList\<close>); \<open>HocrParser\<close> is the constructed object (it has \<^verbatim>\<open>text\<close>, and
  \<^verbatim>\<open>_textList\<close> is deleted).\<close>

record HocrParser_attrs =
  leftCoordOffset :: real
  topCoordOffset :: real
  textLen :: int
  lines :: "int list"
  words :: "OcrWord list"
  hasBlockHadContent :: bool

record building = HocrParser_attrs +
  textList :: "string list"

record HocrParser = HocrParser_attrs +
  text' :: string

type_synonym attrs = "string \<rightharpoonup> string"

datatype xml_event =
    StartElement string attrs
  | EndElement string
  | CharacterData string

text \<open>A string that is not well formed either only ends early (inside a tag, or with
  elements still open: \<open>Unfinished\<close>) or has an error in what is there (a mismatched
  closing tag, an invalid token, text after the root element: \<open>Broken\<close>).\<close>

datatype wellformedness = WellFormed | Unfinished | Broken

record markup =
  callbacks :: "xml_event list"
  form :: wellformedness

definition startElement :: "building \<Rightarrow> string \<Rightarrow> attrs \<Rightarrow> error + building" where
  "startElement self tag attrs =
     (if tag = ''p'' \<or> tag = ''div'' then Inr (self\<lparr>hasBlockHadContent := False\<rparr>)
      else if tag = ''span'' then
        (case attrs ''class'' of
           None \<Rightarrow> Inl KeyError
         | Some cls \<Rightarrow>
             if cls = ''ocr_line'' then Inr (self\<lparr>lines := lines self @ [textLen self]\<rparr>)
             else if cls = ''ocr_word'' then
               (case attrs ''title'' of
                  None \<Rightarrow> Inl AttributeError
                | Some title \<Rightarrow>
                    (case split_space title of
                       [prefix, l, t, r, b] \<Rightarrow>
                         (case py_int l of
                            None \<Rightarrow> Inl ValueError
                          | Some li \<Rightarrow>
                          (case truediv li IMAGE_RESIZE_FACTOR of
                             Inl e \<Rightarrow> Inl e
                           | Inr lq \<Rightarrow>
                          (case py_int t of
                             None \<Rightarrow> Inl ValueError
                           | Some ti \<Rightarrow>
                          (case truediv ti IMAGE_RESIZE_FACTOR of
                             Inl e \<Rightarrow> Inl e
                           | Inr tq \<Rightarrow>
                               Inr (self\<lparr>words := words self @
                                 [\<lparr>offset = textLen self,
                                   left = leftCoordOffset self + lq,
                                   top' = topCoordOffset self + tq\<rparr>]\<rparr>)))))
                     | _ \<Rightarrow> Inl ValueError))
             else Inr self)
      else Inr self)"

definition endElement :: "building \<Rightarrow> string \<Rightarrow> error + building" where
  "endElement self tag = Inr self"

definition charData :: "building \<Rightarrow> string \<Rightarrow> error + building" where
  "charData self data =
     (if isspace data \<and> \<not> hasBlockHadContent self then Inr self
      else
        let data' = (if isspace data then '' '' else data) in
        if isspace data \<and> textList self \<noteq> [] \<and> last (textList self) = data' then Inr self
        else Inr (self\<lparr>hasBlockHadContent := True,
                        textList := textList self @ [data'],
                        textLen := textLen self + int (length data')\<rparr>))"

text \<open>\<^verbatim>\<open>parser.Parse(data, isfinal)\<close>: expat calls the handlers in document order; an
  exception in a handler ends the run and is raised by \<^verbatim>\<open>Parse\<close>; an error in the markup
  makes \<^verbatim>\<open>Parse\<close> raise after the handler calls for the part before it. Data that only
  ends early is an error when \<^verbatim>\<open>isfinal\<close> is true; when it is false expat takes the data
  as the first part of a longer input and raises nothing. The constructor calls
  \<^verbatim>\<open>parser.Parse(xml)\<close>, which leaves \<^verbatim>\<open>isfinal\<close> at its default, false.\<close>

fun handle :: "building \<Rightarrow> xml_event \<Rightarrow> error + building" where
  "handle self (StartElement tag attrs) = startElement self tag attrs"
| "handle self (EndElement tag) = endElement self tag"
| "handle self (CharacterData data) = charData self data"

fun feed :: "building \<Rightarrow> xml_event list \<Rightarrow> error + building" where
  "feed self [] = Inr self"
| "feed self (ev # evs) =
     (case handle self ev of Inl e \<Rightarrow> Inl e | Inr self' \<Rightarrow> feed self' evs)"

definition Parse :: "building \<Rightarrow> markup \<Rightarrow> bool \<Rightarrow> error + building" where
  "Parse self xml isfinal =
     (case feed self (callbacks xml) of
        Inl e \<Rightarrow> Inl e
      | Inr self' \<Rightarrow>
          if form xml = Broken \<or> (isfinal \<and> form xml = Unfinished) then Inl ExpatError
          else Inr self')"

definition fresh :: "real \<Rightarrow> real \<Rightarrow> building" where
  "fresh leftCoordOffset' topCoordOffset' =
     \<lparr>leftCoordOffset = leftCoordOffset', topCoordOffset = topCoordOffset',
      textLen = 0, lines = [], words = [], hasBlockHadContent = False, textList = []\<rparr>"

definition HocrParser_init :: "markup \<Rightarrow> real \<Rightarrow> real \<Rightarrow> error + HocrParser" where
  "HocrParser_init xml leftCoordOffset' topCoordOffset' =
     (case Parse (fresh leftCoordOffset' topCoordOffset') xml False of
        Inl e \<Rightarrow> Inl e
      | Inr self \<Rightarrow>
          Inr \<lparr>leftCoordOffset = leftCoordOffset self, topCoordOffset = topCoordOffset self,
               textLen = textLen self, lines = lines self, words = words self,
               hasBlockHadContent = hasBlockHadContent self,
               text' = concat (textList self)\<rparr>)"

subsection \<open>The text view\<close>

text \<open>An \<^verbatim>\<open>OcrTextInfo\<close> holds the object it reviews, the position state kept by its base
  class \<^verbatim>\<open>OffsetsTextInfo\<close> (not part of this program, so a type parameter) and the parser.
  \<^verbatim>\<open>copy\<close> builds a new view from \<^verbatim>\<open>self.obj\<close>, \<^verbatim>\<open>self.bookmark\<close> and the same parser;
  \<^verbatim>\<open>bookmark\<close> is a property of the base class and is passed in.\<close>

type_synonym Point = "int \<times> int"

record ('o, 'p) OcrTextInfo =
  obj :: 'o
  position :: 'p
  parser :: HocrParser

definition OcrTextInfo_init :: "'o \<Rightarrow> 'p \<Rightarrow> HocrParser \<Rightarrow> ('o, 'p) OcrTextInfo" where
  "OcrTextInfo_init obj' position' parser' =
     \<lparr>obj = obj', position = position', parser = parser'\<rparr>"

definition copy :: "(('o, 'p) OcrTextInfo \<Rightarrow> 'p) \<Rightarrow> ('o, 'p) OcrTextInfo \<Rightarrow> ('o, 'p) OcrTextInfo" where
  "copy bookmark self = OcrTextInfo_init (obj self) (bookmark self) (parser self)"

definition getTextRange :: "('o, 'p) OcrTextInfo \<Rightarrow> int \<Rightarrow> int \<Rightarrow> string" where
  "getTextRange self start stop = py_slice (text' (parser self)) start stop"

definition getStoryLength :: "('o, 'p) OcrTextInfo \<Rightarrow> int" where
  "getStoryLength self = textLen (parser self)"

fun lineOffsets_loop :: "int list \<Rightarrow> int \<Rightarrow> int \<Rightarrow> int \<Rightarrow> int \<times> int" where
  "lineOffsets_loop [] offs start len = (start, len)"
| "lineOffsets_loop (e # rest) offs start len =
     (if e > offs then (start, e) else lineOffsets_loop rest offs e len)"

definition getLineOffsets :: "('o, 'p) OcrTextInfo \<Rightarrow> int \<Rightarrow> int \<times> int" where
  "getLineOffsets self offs =
     lineOffsets_loop (lines (parser self)) offs 0 (textLen (parser self))"

fun wordOffsets_loop :: "OcrWord list \<Rightarrow> int \<Rightarrow> int \<Rightarrow> int \<Rightarrow> int \<times> int" where
  "wordOffsets_loop [] offs start len = (start, len)"
| "wordOffsets_loop (word # rest) offs start len =
     (if offset word > offs then (start, offset word)
      else wordOffsets_loop rest offs (offset word) len)"

definition getWordOffsets :: "('o, 'p) OcrTextInfo \<Rightarrow> int \<Rightarrow> int \<times> int" where
  "getWordOffsets self offs =
     wordOffsets_loop (words (parser self)) offs 0 (textLen (parser self))"

text \<open>\<^verbatim>\<open>_getPointFromOffset\<close> is a \<^verbatim>\<open>for ... else\<close>: the \<^verbatim>\<open>else\<close> branch (the origin) runs
  when the loop ends without \<^verbatim>\<open>break\<close>; after a \<^verbatim>\<open>break\<close> the variable \<^verbatim>\<open>word\<close> is read,
  which is unbound (\<open>None\<close>) if the first word already broke the loop.\<close>

fun pointFromOffset_loop :: "OcrWord list \<Rightarrow> int \<Rightarrow> OcrWord option \<Rightarrow> Point \<Rightarrow> error + Point" where
  "pointFromOffset_loop [] offs word origin = Inr origin"
| "pointFromOffset_loop (nextWord # rest) offs word origin =
     (if offset nextWord > offs then
        (case word of
           None \<Rightarrow> Inl UnboundLocalError
         | Some w \<Rightarrow> Inr (int_of_float (left w), int_of_float (top' w)))
      else pointFromOffset_loop rest offs (Some nextWord) origin)"

definition getPointFromOffset :: "('o, 'p) OcrTextInfo \<Rightarrow> int \<Rightarrow> error + Point" where
  "getPointFromOffset self offs =
     pointFromOffset_loop (words (parser self)) offs None
       (int_of_float (leftCoordOffset (parser self)),
        int_of_float (topCoordOffset (parser self)))"

subsection \<open>The invariant of the parser object\<close>

text \<open>What every handler keeps: line boundaries and word offsets in ascending order and
  within the running length, and the running length equal to the length of the text
  collected so far.\<close>

definition consistent :: "building \<Rightarrow> bool" where
  "consistent s =
     (sorted (lines s) \<and> sorted (map offset (words s)) \<and>
      (\<forall>b \<in> set (lines s). 0 \<le> b \<and> b \<le> textLen s) \<and>
      (\<forall>w \<in> set (words s). 0 \<le> offset w \<and> offset w \<le> textLen s) \<and>
      textLen s = int (length (concat (textList s))))"

subsection \<open>Sample documents\<close>

text \<open>The attribute dictionaries of a line marker and of a word marker.\<close>

definition line_attrs :: attrs where
  "line_attrs = [''class'' \<mapsto> ''ocr_line'']"

definition word_attrs :: "string \<Rightarrow> attrs" where
  "word_attrs title = [''class'' \<mapsto> ''ocr_word'', ''title'' \<mapsto> title]"

text \<open>\<^verbatim>\<open><p><span class="ocr_line"><span class="ocr_word" title="bbox 20 40 60 80">Hi</span></span></p>\<close>\<close>

definition one_word_markup :: markup where
  "one_word_markup =
     \<lparr>callbacks =
        [StartElement ''p'' Map.empty, StartElement ''span'' line_attrs,
         StartElement ''span'' (word_attrs ''bbox 20 40 60 80''), CharacterData ''Hi'',
         EndElement ''span'', EndElement ''span'', EndElement ''p''],
      form = WellFormed\<rparr>"

definition one_word_doc :: HocrParser where
  "one_word_doc =
     \<lparr>leftCoordOffset = 3, topCoordOffset = 7, textLen = 2, lines = [0],
      words = [\<lparr>offset = 0, left = 13, top' = 27\<rparr>],
      hasBlockHadContent = True, text' = ''Hi''\<rparr>"

text \<open>\<^verbatim>\<open><div>Page <span class="ocr_line"><span class="ocr_word" title="bbox 20 40 60 80">Hi</span></span></div>\<close>\<close>

definition late_word_markup :: markup where
  "late_word_markup =
     \<lparr>callbacks =
        [StartElement ''div'' Map.empty, CharacterData ''Page '',
         StartElement ''span'' line_attrs,
         StartElement ''span'' (word_attrs ''bbox 20 40 60 80''), CharacterData ''Hi'',
         EndElement ''span'', EndElement ''span'', EndElement ''div''],
      form = WellFormed\<rparr>"

definition late_word_doc :: HocrParser where
  "late_word_doc =
     \<lparr>leftCoordOffset = 3, topCoordOffset = 7, textLen = 7, lines = [5],
      words = [\<lparr>offset = 5, left = 13, top' = 27\<rparr>],
      hasBlockHadContent = True, text' = ''Page Hi''\<rparr>"



text \<open>The same line with a bounding box of three numbers on the first word:
  \<^verbatim>\<open><p><span class="ocr_line"><span class="ocr_word" title="bbox 10 20 30">Hi</span>\<close>
  \<^verbatim>\<open> <span class="ocr_word" title="bbox 70 40 90 80">you</span></span></p>\<close>\<close>

definition short_bbox_markup :: markup where
  "short_bbox_markup =
     \<lparr>callbacks =
        [StartElement ''p'' Map.empty, StartElement ''span'' line_attrs,
         StartElement ''span'' (word_attrs ''bbox 10 20 30''), CharacterData ''Hi'',
         EndElement ''span'', CharacterData '' '',
         StartElement ''span'' (word_attrs ''bbox 70 40 90 80''), CharacterData ''you'',
         EndElement ''span'', EndElement ''span'', EndElement ''p''],
      form = WellFormed\<rparr>"

text \<open>\<^verbatim>\<open><p>  Hello   world  </p>\<close> and \<^verbatim>\<open><p>a <b> </b>b</p>\<close>\<close>

definition hello_markup :: markup where
  "hello_markup =
     \<lparr>callbacks =
        [StartElement ''p'' Map.empty, CharacterData ''  Hello   world  '', EndElement ''p''],
      form = WellFormed\<rparr>"

definition hello_doc :: HocrParser where
  "hello_doc =
     \<lparr>leftCoordOffset = 0, topCoordOffset = 0, textLen = 17, lines = [], words = [],
      hasBlockHadContent = True, text' = ''  Hello   world  ''\<rparr>"

definition bold_space_markup :: markup where
  "bold_space_markup =
     \<lparr>callbacks =
        [StartElement ''p'' Map.empty, CharacterData ''a '', StartElement ''b'' Map.empty,
         CharacterData '' '', EndElement ''b'', CharacterData ''b'', EndElement ''p''],
      form = WellFormed\<rparr>"

definition bold_space_doc :: HocrParser where
  "bold_space_doc =
     \<lparr>leftCoordOffset = 0, topCoordOffset = 0, textLen = 4, lines = [], words = [],
      hasBlockHadContent = True, text' = ''a  b''\<rparr>"

text \<open>An empty line before a line with one word:
  \<^verbatim>\<open><p><span class="ocr_line"></span>\<close>
  \<^verbatim>\<open><span class="ocr_line"><span class="ocr_word" title="bbox 20 40 60 80">Hi</span></span></p>\<close>\<close>

definition empty_line_markup :: markup where
  "empty_line_markup =
     \<lparr>callbacks =
        [StartElement ''p'' Map.empty, StartElement ''span'' line_attrs, EndElement ''span'',
         StartElement ''span'' line_attrs,
         StartElement ''span'' (word_attrs ''bbox 20 40 60 80''), CharacterData ''Hi'',
         EndElement ''span'', EndElement ''span'', EndElement ''p''],
      form = WellFormed\<rparr>"

definition empty_line_doc :: HocrParser where
  "empty_line_doc =
     \<lparr>leftCoordOffset = 0, topCoordOffset = 0, textLen = 2, lines = [0, 0],
      words = [\<lparr>offset = 0, left = 10, top' = 20\<rparr>],
      hasBlockHadContent = True, text' = ''Hi''\<rparr>"

text \<open>A document whose line boundaries are 5, 12 and 20 and whose length is 20:
  \<^verbatim>\<open><div>Lorem<span class="ocr_line">ipsum d</span><span class="ocr_line">olor sit</span>\<close>
  \<^verbatim>\<open><span class="ocr_line"></span></div>\<close>\<close>

definition three_lines_markup :: markup where
  "three_lines_markup =
     \<lparr>callbacks =
        [StartElement ''div'' Map.empty, CharacterData ''Lorem'',
         StartElement ''span'' line_attrs, CharacterData ''ipsum d'', EndElement ''span'',
         StartElement ''span'' line_attrs, CharacterData ''olor sit'', EndElement ''span'',
         StartElement ''span'' line_attrs, EndElement ''span'', EndElement ''div''],
      form = WellFormed\<rparr>"

definition three_lines_doc :: HocrParser where
  "three_lines_doc =
     \<lparr>leftCoordOffset = 0, topCoordOffset = 0, textLen = 20, lines = [5, 12, 20], words = [],
      hasBlockHadContent = True, text' = ''Loremipsum dolor sit''\<rparr>"

text \<open>\<^verbatim>\<open><p>Hi<span\<close>, cut off inside a tag: expat reports the paragraph and its text and
  waits for the rest of the tag.\<close>

definition unterminated_markup :: markup where
  "unterminated_markup =
     \<lparr>callbacks = [StartElement ''p'' Map.empty, CharacterData ''Hi''],
      form = Unfinished\<rparr>"

definition unterminated_doc :: HocrParser where
  "unterminated_doc =
     \<lparr>leftCoordOffset = 0, topCoordOffset = 0, textLen = 2, lines = [], words = [],
      hasBlockHadContent = True, text' = ''Hi''\<rparr>"

text \<open>\<^verbatim>\<open><p>Hi</q>\<close>, a mismatched closing tag: expat reports the paragraph and its text
  and then the error.\<close>

definition mismatched_markup :: markup where
  "mismatched_markup =
     \<lparr>callbacks = [StartElement ''p'' Map.empty, CharacterData ''Hi''],
      form = Broken\<rparr>"

text \<open>\<^verbatim>\<open><p><span>Hi</span></p>\<close>: a span without any attribute.\<close>

definition no_class_markup :: markup where
  "no_class_markup =
     \<lparr>callbacks =
        [StartElement ''p'' Map.empty, StartElement ''span'' Map.empty, CharacterData ''Hi'',
         EndElement ''span'', EndElement ''p''],
      form = WellFormed\<rparr>"

text \<open>The facts that evaluate the parser on a sample document.\<close>

lemmas run_simps =
  HocrParser_init_def Parse_def fresh_def startElement_def endElement_def charData_def
  isspace_def isspace_char_def py_int_def digits_int_def int_max_str_digits_def
  strip_int_space_def int_space_char_def digit_char_def digit_val_def truediv_def
  IMAGE_RESIZE_FACTOR_def line_attrs_def word_attrs_def Let_def

lemmas view_simps =
  OcrTextInfo_init_def getLineOffsets_def getWordOffsets_def getPointFromOffset_def
  getStoryLength_def getTextRange_def int_of_float_def

section \<open>Properties\<close>

subsection \<open>The handlers keep the invariant\<close>

lemma consistent_fresh: "consistent (fresh l t)"
  by (simp add: consistent_def fresh_def)

lemma startElement_cases:
  assumes "startElement s tag a = Inr s'"
  shows "s' = s\<lparr>hasBlockHadContent := False\<rparr> \<or> s' = s\<lparr>lines := lines s @ [textLen s]\<rparr> \<or>
         (\<exists>x y. s' = s\<lparr>words := words s @ [\<lparr>offset = textLen s, left = x, top' = y\<rparr>]\<rparr>) \<or> s' = s"
  using assms unfolding startElement_def
  by (auto split: if_splits option.splits list.splits sum.splits)

lemma charData_cases:
  assumes "charData s d = Inr s'"
  shows "s' = s \<or> s' = s\<lparr>hasBlockHadContent := True,
                        textList := textList s @ [if isspace d then '' '' else d],
                        textLen := textLen s + int (length (if isspace d then '' '' else d))\<rparr>"
  using assms unfolding charData_def Let_def
  by (simp split: if_splits)

lemma consistent_startElement:
  assumes "consistent s" "startElement s tag a = Inr s'" shows "consistent s'"
  using startElement_cases[OF assms(2)] assms(1)
  by (auto simp: consistent_def sorted_append)

lemma consistent_charData:
  assumes "consistent s" "charData s d = Inr s'" shows "consistent s'"
  using charData_cases[OF assms(2)] assms(1)
  by (fastforce simp: consistent_def)

lemma consistent_handle:
  assumes "consistent s" "handle s ev = Inr s'" shows "consistent s'"
  using assms
  by (cases ev) (auto simp: endElement_def intro: consistent_startElement consistent_charData)

lemma consistent_feed:
  "consistent s \<Longrightarrow> feed s evs = Inr s' \<Longrightarrow> consistent s'"
  by (induction evs arbitrary: s) (auto split: sum.splits intro: consistent_handle)

lemma feed_append:
  "feed s (xs @ ys) = (case feed s xs of Inl e \<Rightarrow> Inl e | Inr s' \<Rightarrow> feed s' ys)"
  by (induction xs arbitrary: s) (auto split: sum.splits)

lemma init_Inr:
  "HocrParser_init xml l t = Inr p \<Longrightarrow>
     \<exists>s. feed (fresh l t) (callbacks xml) = Inr s \<and> form xml \<noteq> Broken \<and>
         lines p = lines s \<and> words p = words s \<and> textLen p = textLen s \<and>
         leftCoordOffset p = leftCoordOffset s \<and> topCoordOffset p = topCoordOffset s \<and>
         text' p = concat (textList s)"
  unfolding HocrParser_init_def Parse_def
  by (auto split: sum.splits if_splits)

subsection \<open>The loops of the text view\<close>

lemma lineOffsets_loop_break:
  "i < length ls \<Longrightarrow> offs < ls ! i \<Longrightarrow> \<forall>j<i. ls ! j \<le> offs \<Longrightarrow>
     lineOffsets_loop ls offs start len = (if i = 0 then start else ls ! (i - 1), ls ! i)"
proof (induction ls arbitrary: i start)
  case Nil then show ?case by simp
next
  case (Cons e rest)
  show ?case
  proof (cases i)
    case 0 with Cons.prems show ?thesis by simp
  next
    case (Suc k)
    from Cons.prems Suc have e: "e \<le> offs" by auto
    from Cons.prems Suc have k: "k < length rest" "offs < rest ! k" "\<forall>j<k. rest ! j \<le> offs"
      by auto
    from Cons.IH[OF k, of e] e Suc show ?thesis
      by (cases k) auto
  qed
qed

lemma lineOffsets_loop_exhaust:
  "\<forall>b \<in> set ls. b \<le> offs \<Longrightarrow>
     lineOffsets_loop ls offs start len = (if ls = [] then start else last ls, len)"
  by (induction ls arbitrary: start) auto

lemma sorted_le_last:
  fixes ls :: "int list"
  shows "sorted ls \<Longrightarrow> ls \<noteq> [] \<Longrightarrow> b \<in> set ls \<Longrightarrow> b \<le> last ls"
  by (induction ls) (auto split: if_splits)

lemma pointFromOffset_loop_exhaust:
  "\<forall>w \<in> set ws. offset w \<le> offs \<Longrightarrow> pointFromOffset_loop ws offs word origin = Inr origin"
  by (induction ws arbitrary: word) auto


subsection \<open>A run of the parser only appends\<close>



subsection \<open>Division and rounding toward zero\<close>


text \<open>The first integer that is too large to be halved.\<close>

lemma truediv_overflow:
  "truediv (2 * (2 ^ 1024 - 2 ^ 970)) IMAGE_RESIZE_FACTOR = Inl OverflowError"
  by (simp add: truediv_def IMAGE_RESIZE_FACTOR_def)



section \<open>The claims\<close>

subsection \<open>Point lookup\<close>

text \<open>
  Claim C1. In a parsed document with at least one word, for an offset at or after the
  first word's offset, \<^verbatim>\<open>pointForOffset\<close> returns the screen coordinates of the last word
  whose offset is at most the given offset, also when the given offset is at or after
  the last word's offset.

  The code does not: when no word starts after the given offset the loop ends without
  \<^verbatim>\<open>break\<close> and the \<^verbatim>\<open>else\<close> branch returns the capture origin. The document below
  has one word, at offset 0 and at the screen point (13, 27); with the capture origin
  (3, 7) the lookup at offset 0 returns (3, 7).
\<close>

theorem pointForOffset_last_word_gives_origin:
  "HocrParser_init one_word_markup 3 7 = Inr one_word_doc \<and>
   words one_word_doc = [\<lparr>offset = 0, left = 13, top' = 27\<rparr>] \<and>
   getPointFromOffset (OcrTextInfo_init () () one_word_doc) 0 = Inr (3, 7)"
  by (simp add: one_word_markup_def one_word_doc_def run_simps view_simps)

text \<open>The same holds in general: at or after the last word's offset, any parsed
  document answers with the origin.\<close>

lemma pointFromOffset_at_or_after_last_word:
  assumes "HocrParser_init xml l t = Inr p"
    and "words p \<noteq> []" and "offset (last (words p)) \<le> offs"
  shows "getPointFromOffset (OcrTextInfo_init obj' pos p) offs =
           Inr (int_of_float (leftCoordOffset p), int_of_float (topCoordOffset p))"
proof -
  from init_Inr[OF assms(1)] obtain s where
    s: "feed (fresh l t) (callbacks xml) = Inr s" "words p = words s"
    by blast
  have "consistent s" using consistent_feed[OF consistent_fresh s(1)] .
  then have srt: "sorted (map offset (words p))" by (simp add: consistent_def s(2))
  have "\<forall>w \<in> set (words p). offset w \<le> offs"
  proof
    fix w assume "w \<in> set (words p)"
    then have "offset w \<in> set (map offset (words p))" by simp
    from sorted_le_last[OF srt _ this] assms(2)
    have "offset w \<le> last (map offset (words p))" by simp
    also have "\<dots> = offset (last (words p))" using assms(2) by (simp add: last_map)
    finally show "offset w \<le> offs" using assms(3) by simp
  qed
  then show ?thesis
    unfolding getPointFromOffset_def OcrTextInfo_init_def
    by (simp add: pointFromOffset_loop_exhaust)
qed

text \<open>
  Claim C3. For an offset that precedes the first recorded word's offset, and also when
  the document has no words, \<^verbatim>\<open>pointForOffset\<close> returns the capture origin instead of
  failing.

  The code fails in the first case: the first word ends the loop by \<^verbatim>\<open>break\<close> before
  \<^verbatim>\<open>word\<close> is assigned, and the \<^verbatim>\<open>return\<close> after the loop reads the unbound variable.
  The document below has the text \<^verbatim>\<open>Page\<close> before its only word, which starts at
  offset 5; the lookup at offset 0 raises \<^verbatim>\<open>UnboundLocalError\<close>.
\<close>

theorem pointForOffset_before_first_word_raises:
  "HocrParser_init late_word_markup 3 7 = Inr late_word_doc \<and>
   words late_word_doc = [\<lparr>offset = 5, left = 13, top' = 27\<rparr>] \<and>
   getPointFromOffset (OcrTextInfo_init () () late_word_doc) 0 = Inl UnboundLocalError"
  by (simp add: late_word_markup_def late_word_doc_def run_simps view_simps)

text \<open>In general the lookup raises as soon as the first word starts after the offset,
  and a document without words answers with the origin.\<close>

lemma pointFromOffset_before_first_word:
  assumes "words p = w # ws" and "offs < offset w"
  shows "getPointFromOffset (OcrTextInfo_init obj' pos p) offs = Inl UnboundLocalError"
  using assms by (simp add: getPointFromOffset_def OcrTextInfo_init_def)

lemma pointFromOffset_no_words:
  assumes "words p = []"
  shows "getPointFromOffset (OcrTextInfo_init obj' pos p) offs =
           Inr (int_of_float (leftCoordOffset p), int_of_float (topCoordOffset p))"
  using assms by (simp add: getPointFromOffset_def OcrTextInfo_init_def)




subsection \<open>Line ranges\<close>

text \<open>
  Claim C7. \<^verbatim>\<open>lineRange(offset)\<close> returns \<open>(start, end)\<close> where \<open>end\<close> is the first line
  boundary strictly greater than the offset and \<open>start\<close> is the boundary before it (0 when
  there is none); when the offset is at or beyond the last boundary it returns that
  boundary and the story length. With the boundaries 5, 12, 20 and the story length 20:
  \<open>lineRange 0 = (0, 5)\<close>, \<open>lineRange 5 = (5, 12)\<close> and \<open>lineRange 19 = (12, 20)\<close>.
  Stated for every document the parser returns.
\<close>

theorem lineRange_first_greater_boundary:
  assumes "HocrParser_init xml l t = Inr p"
  shows "(\<forall>i < length (lines p).
            offs < lines p ! i \<and> (\<forall>j < i. lines p ! j \<le> offs) \<longrightarrow>
            getLineOffsets (OcrTextInfo_init obj' pos p) offs =
              (if i = 0 then 0 else lines p ! (i - 1), lines p ! i)) \<and>
         (lines p \<noteq> [] \<and> last (lines p) \<le> offs \<longrightarrow>
            getLineOffsets (OcrTextInfo_init obj' pos p) offs =
              (last (lines p), getStoryLength (OcrTextInfo_init obj' pos p))) \<and>
         (lines p = [5, 12, 20] \<and> getStoryLength (OcrTextInfo_init obj' pos p) = 20 \<longrightarrow>
            getLineOffsets (OcrTextInfo_init obj' pos p) 0 = (0, 5) \<and>
            getLineOffsets (OcrTextInfo_init obj' pos p) 5 = (5, 12) \<and>
            getLineOffsets (OcrTextInfo_init obj' pos p) 19 = (12, 20))"
proof (intro conjI allI impI)
  fix i assume "i < length (lines p)"
    and "offs < lines p ! i \<and> (\<forall>j < i. lines p ! j \<le> offs)"
  then show "getLineOffsets (OcrTextInfo_init obj' pos p) offs =
               (if i = 0 then 0 else lines p ! (i - 1), lines p ! i)"
    unfolding getLineOffsets_def OcrTextInfo_init_def
    using lineOffsets_loop_break[of i "lines p" offs 0 "textLen p"] by simp
next
  assume a: "lines p \<noteq> [] \<and> last (lines p) \<le> offs"
  from init_Inr[OF assms] obtain s where
    s: "feed (fresh l t) (callbacks xml) = Inr s" "lines p = lines s"
    by blast
  have "consistent s" using consistent_feed[OF consistent_fresh s(1)] .
  then have srt: "sorted (lines p)" by (simp add: consistent_def s(2))
  have "\<forall>b \<in> set (lines p). b \<le> offs"
    using sorted_le_last[OF srt] a by fastforce
  from lineOffsets_loop_exhaust[OF this, of 0 "textLen p"] a
  show "getLineOffsets (OcrTextInfo_init obj' pos p) offs =
          (last (lines p), getStoryLength (OcrTextInfo_init obj' pos p))"
    by (simp add: getLineOffsets_def getStoryLength_def OcrTextInfo_init_def)
next
  assume "lines p = [5, 12, 20] \<and> getStoryLength (OcrTextInfo_init obj' pos p) = 20"
  then show "getLineOffsets (OcrTextInfo_init obj' pos p) 0 = (0, 5)"
    by (simp add: getLineOffsets_def OcrTextInfo_init_def)
next
  assume "lines p = [5, 12, 20] \<and> getStoryLength (OcrTextInfo_init obj' pos p) = 20"
  then show "getLineOffsets (OcrTextInfo_init obj' pos p) 5 = (5, 12)"
    by (simp add: getLineOffsets_def OcrTextInfo_init_def)
next
  assume "lines p = [5, 12, 20] \<and> getStoryLength (OcrTextInfo_init obj' pos p) = 20"
  then show "getLineOffsets (OcrTextInfo_init obj' pos p) 19 = (12, 20)"
    by (simp add: getLineOffsets_def getStoryLength_def OcrTextInfo_init_def)
qed

text \<open>The theorem on the sample with the boundaries 5, 12, 20: offset 13 lies before the
  boundary of index 2, offset 20 is at the last boundary.\<close>

theorem lineRange_first_greater_boundary_witness:
  "HocrParser_init three_lines_markup 0 0 = Inr three_lines_doc \<and>
   lines three_lines_doc = [5, 12, 20] \<and>
   getStoryLength (OcrTextInfo_init () () three_lines_doc) = 20 \<and>
   getLineOffsets (OcrTextInfo_init () () three_lines_doc) 13 = (12, 20) \<and>
   getLineOffsets (OcrTextInfo_init () () three_lines_doc) 20 = (20, 20) \<and>
   getLineOffsets (OcrTextInfo_init () () three_lines_doc) 0 = (0, 5) \<and>
   getLineOffsets (OcrTextInfo_init () () three_lines_doc) 5 = (5, 12) \<and>
   getLineOffsets (OcrTextInfo_init () () three_lines_doc) 19 = (12, 20)"
proof -
  have h: "HocrParser_init three_lines_markup 0 0 = Inr three_lines_doc"
    by (simp add: three_lines_markup_def three_lines_doc_def run_simps)
  have ls: "lines three_lines_doc = [5, 12, 20]"
    by (simp add: three_lines_doc_def)
  have len: "getStoryLength (OcrTextInfo_init () () three_lines_doc) = 20"
    by (simp add: three_lines_doc_def view_simps)
  have j: "\<forall>j < 2. lines three_lines_doc ! j \<le> 13"
    by (simp add: ls less_Suc_eq numeral_2_eq_2)
  note thm13 = lineRange_first_greater_boundary[OF h, of 13 "()" "()"]
  note thm20 = lineRange_first_greater_boundary[OF h, of 20 "()" "()"]
  from thm13 have
    "2 < length (lines three_lines_doc) \<longrightarrow>
       13 < lines three_lines_doc ! 2 \<and> (\<forall>j < 2. lines three_lines_doc ! j \<le> 13) \<longrightarrow>
       getLineOffsets (OcrTextInfo_init () () three_lines_doc) 13 =
         (if (2::nat) = 0 then 0 else lines three_lines_doc ! (2 - 1), lines three_lines_doc ! 2)"
    by blast
  with j have a: "getLineOffsets (OcrTextInfo_init () () three_lines_doc) 13 = (12, 20)"
    by (simp add: ls)
  from thm20 have b: "getLineOffsets (OcrTextInfo_init () () three_lines_doc) 20 = (20, 20)"
    by (simp add: ls len)
  from thm20 ls len have c:
    "getLineOffsets (OcrTextInfo_init () () three_lines_doc) 0 = (0, 5) \<and>
     getLineOffsets (OcrTextInfo_init () () three_lines_doc) 5 = (5, 12) \<and>
     getLineOffsets (OcrTextInfo_init () () three_lines_doc) 19 = (12, 20)"
    by blast
  from h ls len a b c show ?thesis by simp
qed

subsection \<open>Invariants of a parsed document\<close>

text \<open>
  Claim C8, as the code has it. After a parse that returns a document, the line
  boundaries are in non-decreasing order (a line marker that opens before any text was
  appended since the previous line marker repeats its boundary), the word records are in
  non-decreasing order of offset, every line boundary and every word offset lies between
  0 and the story length, and the story length is the length of the text.
\<close>

theorem parsed_model_invariants:
  assumes "HocrParser_init xml l t = Inr p"
  shows "sorted (lines p) \<and> sorted (map offset (words p)) \<and>
         (\<forall>b \<in> set (lines p). 0 \<le> b \<and> b \<le> getStoryLength (OcrTextInfo_init obj' pos p)) \<and>
         (\<forall>w \<in> set (words p).
            0 \<le> offset w \<and> offset w \<le> getStoryLength (OcrTextInfo_init obj' pos p)) \<and>
         getStoryLength (OcrTextInfo_init obj' pos p) = int (length (text' p))"
proof -
  from init_Inr[OF assms] obtain s where
    s: "feed (fresh l t) (callbacks xml) = Inr s" "lines p = lines s" "words p = words s"
       "textLen p = textLen s" "text' p = concat (textList s)"
    by blast
  have "consistent s" using consistent_feed[OF consistent_fresh s(1)] .
  then have "sorted (lines s)" "sorted (map offset (words s))"
    "\<forall>b \<in> set (lines s). 0 \<le> b \<and> b \<le> textLen s"
    "\<forall>w \<in> set (words s). 0 \<le> offset w \<and> offset w \<le> textLen s"
    "textLen s = int (length (concat (textList s)))"
    unfolding consistent_def by blast+
  with s(2-5) show ?thesis
    unfolding getStoryLength_def OcrTextInfo_init_def by simp
qed

theorem parsed_model_invariants_witness:
  "HocrParser_init empty_line_markup 0 0 = Inr empty_line_doc \<and>
   lines empty_line_doc = [0, 0] \<and>
   sorted (lines empty_line_doc) \<and> sorted (map offset (words empty_line_doc)) \<and>
   0 \<le> lines empty_line_doc ! 1 \<and>
   lines empty_line_doc ! 1 \<le> getStoryLength (OcrTextInfo_init () () empty_line_doc) \<and>
   0 \<le> offset (words empty_line_doc ! 0) \<and>
   offset (words empty_line_doc ! 0) \<le> getStoryLength (OcrTextInfo_init () () empty_line_doc) \<and>
   getStoryLength (OcrTextInfo_init () () empty_line_doc) = int (length (text' empty_line_doc))"
proof -
  have h: "HocrParser_init empty_line_markup 0 0 = Inr empty_line_doc"
    by (simp add: empty_line_markup_def empty_line_doc_def run_simps)
  have ls: "lines empty_line_doc = [0, 0]" by (simp add: empty_line_doc_def)
  have m1: "lines empty_line_doc ! 1 \<in> set (lines empty_line_doc)" by (simp add: ls)
  have m2: "words empty_line_doc ! 0 \<in> set (words empty_line_doc)"
    by (simp add: empty_line_doc_def)
  from parsed_model_invariants[OF h, of "()" "()"] h ls m1 m2 show ?thesis
    by blast
qed

text \<open>Claim C8 as the specification states it fails on the document with an empty line:
  its line boundaries are 0, 0, which is not strictly increasing.\<close>

theorem empty_line_repeats_boundary:
  "HocrParser_init empty_line_markup 0 0 = Inr empty_line_doc \<and>
   lines empty_line_doc = [0, 0] \<and>
   \<not> sorted_wrt (<) (lines empty_line_doc)"
  by (simp add: empty_line_markup_def empty_line_doc_def run_simps)

subsection \<open>Copying a view\<close>

text \<open>
  Claim C9. \<^verbatim>\<open>copy()\<close> gives a view over the same parsed document, and each query
  (\<^verbatim>\<open>storyLength\<close>, \<^verbatim>\<open>textRange\<close>, \<^verbatim>\<open>lineRange\<close>, \<^verbatim>\<open>wordRange\<close>, \<^verbatim>\<open>pointForOffset\<close>)
  on the copy returns what it returns on the original, for every offset and range.
\<close>

theorem copy_same_queries:
  "parser (copy bookmark self) = parser self \<and>
   obj (copy bookmark self) = obj self \<and>
   getStoryLength (copy bookmark self) = getStoryLength self \<and>
   getTextRange (copy bookmark self) start stop = getTextRange self start stop \<and>
   getLineOffsets (copy bookmark self) offs = getLineOffsets self offs \<and>
   getWordOffsets (copy bookmark self) offs = getWordOffsets self offs \<and>
   getPointFromOffset (copy bookmark self) offs = getPointFromOffset self offs"
  by (simp add: copy_def OcrTextInfo_init_def getStoryLength_def getTextRange_def
      getLineOffsets_def getWordOffsets_def getPointFromOffset_def)

subsection \<open>Whitespace in character data\<close>

text \<open>
  Claim C4, as the code has it. Character data that is entirely whitespace is discarded
  when the current block has had no content; otherwise it is replaced by one space, and
  that space is dropped when the fragment appended last is exactly one space. Character
  data with a character that is not whitespace is appended as it is: whitespace inside
  it, before it or after it is kept. So \<^verbatim>\<open>"  Hello   world  "\<close> in a fresh block gives
  the text \<^verbatim>\<open>"  Hello   world  "\<close>.
\<close>

theorem charData_normalization:
  "(isspace data \<and> \<not> hasBlockHadContent self \<longrightarrow> charData self data = Inr self) \<and>
   (isspace data \<and> hasBlockHadContent self \<and>
      textList self \<noteq> [] \<and> last (textList self) = '' '' \<longrightarrow>
      charData self data = Inr self) \<and>
   (isspace data \<and> hasBlockHadContent self \<and>
      (textList self = [] \<or> last (textList self) \<noteq> '' '') \<longrightarrow>
      charData self data =
        Inr (self\<lparr>hasBlockHadContent := True, textList := textList self @ ['' ''],
                   textLen := textLen self + 1\<rparr>)) \<and>
   (\<not> isspace data \<longrightarrow>
      charData self data =
        Inr (self\<lparr>hasBlockHadContent := True, textList := textList self @ [data],
                   textLen := textLen self + int (length data)\<rparr>)) \<and>
   HocrParser_init hello_markup 0 0 = Inr hello_doc \<and>
   text' hello_doc = ''  Hello   world  ''"
proof (intro conjI impI)
  show "HocrParser_init hello_markup 0 0 = Inr hello_doc"
    by (simp add: hello_markup_def hello_doc_def run_simps)
  show "text' hello_doc = ''  Hello   world  ''"
    by (simp add: hello_doc_def)
qed (auto simp: charData_def Let_def)

text \<open>The four cases at concrete inputs: a newline in a fresh block; two spaces after
  the fragments \<^verbatim>\<open>"Hi"\<close>, \<^verbatim>\<open>" "\<close>; two spaces after the fragment \<^verbatim>\<open>"Hi"\<close>; and the
  sample text in a fresh block.\<close>

theorem charData_normalization_witness:
  "charData (fresh 0 0) [CHR 10] = Inr (fresh 0 0) \<and>
   charData ((fresh 0 0)\<lparr>hasBlockHadContent := True, textList := [''Hi'', '' ''], textLen := 3\<rparr>)
       ''  '' =
     Inr ((fresh 0 0)\<lparr>hasBlockHadContent := True, textList := [''Hi'', '' ''], textLen := 3\<rparr>) \<and>
   charData ((fresh 0 0)\<lparr>hasBlockHadContent := True, textList := [''Hi''], textLen := 2\<rparr>)
       ''  '' =
     Inr ((fresh 0 0)\<lparr>hasBlockHadContent := True, textList := [''Hi'', '' ''], textLen := 3\<rparr>) \<and>
   charData (fresh 0 0) ''  Hello   world  '' =
     Inr ((fresh 0 0)\<lparr>hasBlockHadContent := True, textList := [''  Hello   world  ''],
                       textLen := 17\<rparr>)"
proof -
  define s1 where
    "s1 = (fresh 0 0)\<lparr>hasBlockHadContent := True, textList := [''Hi'', '' ''], textLen := 3\<rparr>"
  define s2 where
    "s2 = (fresh 0 0)\<lparr>hasBlockHadContent := True, textList := [''Hi''], textLen := 2\<rparr>"
  have nl: "isspace [CHR 10]" by (simp add: isspace_def isspace_char_def)
  have sp: "isspace ''  ''" by (simp add: isspace_def isspace_char_def)
  have hw: "\<not> isspace ''  Hello   world  ''" by (simp add: isspace_def isspace_char_def)
  have f: "\<not> hasBlockHadContent (fresh 0 0)" by (simp add: fresh_def)
  have c1: "hasBlockHadContent s1 \<and> textList s1 \<noteq> [] \<and> last (textList s1) = '' ''"
    by (simp add: s1_def)
  have c2: "hasBlockHadContent s2 \<and> (textList s2 = [] \<or> last (textList s2) \<noteq> '' '')"
    by (simp add: s2_def)
  from charData_normalization[of "[CHR 10]" "fresh 0 0"] nl f
  have a: "charData (fresh 0 0) [CHR 10] = Inr (fresh 0 0)" by blast
  from charData_normalization[of "''  ''" s1] sp c1
  have b: "charData s1 ''  '' = Inr s1" by blast
  from charData_normalization[of "''  ''" s2] sp c2
  have c: "charData s2 ''  '' =
             Inr (s2\<lparr>hasBlockHadContent := True, textList := textList s2 @ ['' ''],
                      textLen := textLen s2 + 1\<rparr>)" by blast
  from charData_normalization[of "''  Hello   world  ''" "fresh 0 0"] hw
  have d: "charData (fresh 0 0) ''  Hello   world  '' =
             Inr ((fresh 0 0)\<lparr>hasBlockHadContent := True,
                    textList := textList (fresh 0 0) @ [''  Hello   world  ''],
                    textLen := textLen (fresh 0 0) + int (length ''  Hello   world  '')\<rparr>)"
    by blast
  from a b c d show ?thesis
    by (simp add: s1_def s2_def fresh_def)
qed

text \<open>Claim C4 as the specification states it fails twice. The sample text keeps its
  leading, inner and trailing spaces. And in \<^verbatim>\<open><p>a <b> </b>b</p>\<close> the space inside
  \<^verbatim>\<open>b\<close> is appended although the character appended before it is a space, because the
  fragment appended before it, \<^verbatim>\<open>"a "\<close>, is not a single space.\<close>

theorem charData_keeps_inner_whitespace:
  "HocrParser_init hello_markup 0 0 = Inr hello_doc \<and>
   text' hello_doc = ''  Hello   world  '' \<and>
   text' hello_doc \<noteq> ''Hello world'' \<and>
   HocrParser_init bold_space_markup 0 0 = Inr bold_space_doc \<and>
   text' bold_space_doc = ''a  b''"
  by (simp add: hello_markup_def hello_doc_def bold_space_markup_def bold_space_doc_def
      run_simps)

subsection \<open>Failures of the parse\<close>

text \<open>
  Claim C2, as the code has it. When a word marker's \<^verbatim>\<open>title\<close> does not split at single
  spaces into exactly five pieces, or its left piece is not an integer, or its left piece
  is an integer that can be halved as a float and its top piece is not an integer, the
  start-element handler raises \<^verbatim>\<open>ValueError\<close>. The handler has no recovery: the parse
  stops at that element (or at an earlier element that already raised) and the
  constructor returns no document.
\<close>

theorem unparsable_bbox_raises:
  assumes cb: "callbacks xml = pre @ StartElement ''span'' a # post"
    and cls: "a ''class'' = Some ''ocr_word''"
    and ttl: "a ''title'' = Some title"
    and bad: "length (split_space title) \<noteq> 5 \<or>
              py_int (split_space title ! 1) = None \<or>
              (\<exists>L lq. py_int (split_space title ! 1) = Some L \<and>
                      truediv L IMAGE_RESIZE_FACTOR = Inr lq \<and>
                      py_int (split_space title ! 2) = None)"
  shows "startElement self ''span'' a = Inl ValueError \<and>
         HocrParser_init xml l t =
           Inl (case feed (fresh l t) pre of Inl e \<Rightarrow> e | Inr s \<Rightarrow> ValueError)"
proof -
  have st: "startElement s ''span'' a = Inl ValueError" for s
    using bad cls ttl unfolding startElement_def
    by (auto split: list.splits option.splits sum.splits)
  have "feed (fresh l t) (callbacks xml) =
          Inl (case feed (fresh l t) pre of Inl e \<Rightarrow> e | Inr s \<Rightarrow> ValueError)"
    by (simp add: cb feed_append st split: sum.splits)
  then have "HocrParser_init xml l t =
          Inl (case feed (fresh l t) pre of Inl e \<Rightarrow> e | Inr s \<Rightarrow> ValueError)"
    by (simp add: HocrParser_init_def Parse_def)
  with st show ?thesis by simp
qed

text \<open>The theorem at the title \<^verbatim>\<open>"bbox 10 20 30"\<close> of the sample, which has four pieces,
  and at the title \<^verbatim>\<open>"bbox 10 x 30 40"\<close>, whose top piece is not an integer.\<close>

theorem unparsable_bbox_raises_witness:
  "length (split_space ''bbox 10 20 30'') \<noteq> 5 \<and>
   startElement (fresh 0 0) ''span'' (word_attrs ''bbox 10 20 30'') = Inl ValueError \<and>
   HocrParser_init short_bbox_markup 0 0 = Inl ValueError \<and>
   py_int ''10'' = Some 10 \<and> truediv 10 IMAGE_RESIZE_FACTOR = Inr 5 \<and> py_int ''x'' = None \<and>
   startElement (fresh 0 0) ''span'' (word_attrs ''bbox 10 x 30 40'') = Inl ValueError"
proof -
  define pre where "pre = [StartElement ''p'' Map.empty, StartElement ''span'' line_attrs]"
  define post where "post =
    [CharacterData ''Hi'', EndElement ''span'', CharacterData '' '',
     StartElement ''span'' (word_attrs ''bbox 70 40 90 80''), CharacterData ''you'',
     EndElement ''span'', EndElement ''span'', EndElement ''p'']"
  have h1: "callbacks short_bbox_markup =
              pre @ StartElement ''span'' (word_attrs ''bbox 10 20 30'') # post"
    by (simp add: short_bbox_markup_def pre_def post_def)
  have h2: "word_attrs ''bbox 10 20 30'' ''class'' = Some ''ocr_word''"
    by (simp add: word_attrs_def)
  have h3: "word_attrs ''bbox 10 20 30'' ''title'' = Some ''bbox 10 20 30''"
    by (simp add: word_attrs_def)
  have h4: "length (split_space ''bbox 10 20 30'') \<noteq> 5" by simp
  then have h4': "length (split_space ''bbox 10 20 30'') \<noteq> 5 \<or>
              py_int (split_space ''bbox 10 20 30'' ! 1) = None \<or>
              (\<exists>L lq. py_int (split_space ''bbox 10 20 30'' ! 1) = Some L \<and>
                      truediv L IMAGE_RESIZE_FACTOR = Inr lq \<and>
                      py_int (split_space ''bbox 10 20 30'' ! 2) = None)"
    by blast
  have h5: "feed (fresh 0 0) pre = Inr ((fresh 0 0)\<lparr>lines := [0]\<rparr>)"
    by (simp add: pre_def run_simps)
  from unparsable_bbox_raises[OF h1 h2 h3 h4', of "fresh 0 0" 0 0] h4 h5
  have first: "length (split_space ''bbox 10 20 30'') \<noteq> 5 \<and>
     startElement (fresh 0 0) ''span'' (word_attrs ''bbox 10 20 30'') = Inl ValueError \<and>
     HocrParser_init short_bbox_markup 0 0 = Inl ValueError"
    by simp
  define one :: markup where
    "one = \<lparr>callbacks = [] @ StartElement ''span'' (word_attrs ''bbox 10 x 30 40'') # [],
            form = WellFormed\<rparr>"
  have k1: "callbacks one = [] @ StartElement ''span'' (word_attrs ''bbox 10 x 30 40'') # []"
    by (simp add: one_def)
  have k2: "word_attrs ''bbox 10 x 30 40'' ''class'' = Some ''ocr_word''"
    by (simp add: word_attrs_def)
  have k3: "word_attrs ''bbox 10 x 30 40'' ''title'' = Some ''bbox 10 x 30 40''"
    by (simp add: word_attrs_def)
  have p10: "py_int ''10'' = Some 10" by (simp add: run_simps)
  have d10: "truediv 10 IMAGE_RESIZE_FACTOR = Inr 5" by (simp add: run_simps)
  have px: "py_int ''x'' = None" by (simp add: run_simps)
  have sp: "split_space ''bbox 10 x 30 40'' = [''bbox'', ''10'', ''x'', ''30'', ''40'']"
    by simp
  have k4: "length (split_space ''bbox 10 x 30 40'') \<noteq> 5 \<or>
              py_int (split_space ''bbox 10 x 30 40'' ! 1) = None \<or>
              (\<exists>L lq. py_int (split_space ''bbox 10 x 30 40'' ! 1) = Some L \<and>
                      truediv L IMAGE_RESIZE_FACTOR = Inr lq \<and>
                      py_int (split_space ''bbox 10 x 30 40'' ! 2) = None)"
    using p10 d10 px by (simp only: sp) simp
  from unparsable_bbox_raises[OF k1 k2 k3 k4, of "fresh 0 0" 0 0]
  have second: "startElement (fresh 0 0) ''span'' (word_attrs ''bbox 10 x 30 40'') = Inl ValueError"
    by blast
  from first second p10 d10 px show ?thesis by blast
qed

text \<open>Claim C2 as the specification states it fails on that document: the word is not
  skipped, the parse raises \<^verbatim>\<open>ValueError\<close> and no document with a story length exists.\<close>

theorem short_bbox_aborts_parse:
  "split_space ''bbox 10 20 30'' = [''bbox'', ''10'', ''20'', ''30''] \<and>
   HocrParser_init short_bbox_markup 0 0 = Inl ValueError"
  by (simp add: short_bbox_markup_def run_simps)

text \<open>
  Claim C6. When the markup is not well-formed XML, for example with an unterminated tag,
  the parse fails with an error that reaches the caller, and the caller gets no document.

  The code does not reach this for markup that ends early. The constructor hands the
  whole markup to \<^verbatim>\<open>Parse\<close> in one call and leaves \<^verbatim>\<open>isfinal\<close> false, so expat waits for
  more input instead of reporting the end: on \<^verbatim>\<open><p>Hi<span\<close> the constructor returns a
  document with the text \<^verbatim>\<open>Hi\<close>. The same call with \<^verbatim>\<open>isfinal\<close> true raises, and so
  does the constructor on an error inside the markup, such as the mismatched tag of
  \<^verbatim>\<open><p>Hi</q>\<close>.
\<close>

theorem unterminated_markup_gives_document:
  "form unterminated_markup = Unfinished \<and>
   HocrParser_init unterminated_markup 0 0 = Inr unterminated_doc \<and>
   text' unterminated_doc = ''Hi'' \<and>
   Parse (fresh 0 0) unterminated_markup True = Inl ExpatError \<and>
   HocrParser_init mismatched_markup 0 0 = Inl ExpatError"
  by (simp add: unterminated_markup_def unterminated_doc_def mismatched_markup_def run_simps)

text \<open>
  Claim C10. A \<^verbatim>\<open>span\<close> element without a \<^verbatim>\<open>class\<close> attribute makes the start-element
  handler raise a lookup error (\<^verbatim>\<open>KeyError\<close>), which aborts the parse; a \<^verbatim>\<open>span\<close> whose
  class is neither the line marker nor the word marker is ignored.
\<close>

theorem span_without_class_raises:
  assumes cb: "callbacks xml = pre @ StartElement ''span'' a # post"
    and cls: "a ''class'' = None"
    and other: "a' ''class'' = Some c" "c \<noteq> ''ocr_line''" "c \<noteq> ''ocr_word''"
  shows "startElement self ''span'' a = Inl KeyError \<and>
         HocrParser_init xml l t =
           Inl (case feed (fresh l t) pre of Inl e \<Rightarrow> e | Inr s \<Rightarrow> KeyError) \<and>
         startElement self ''span'' a' = Inr self"
proof -
  have st: "startElement s ''span'' a = Inl KeyError" for s
    using cls by (simp add: startElement_def)
  have "feed (fresh l t) (callbacks xml) =
          Inl (case feed (fresh l t) pre of Inl e \<Rightarrow> e | Inr s \<Rightarrow> KeyError)"
    by (simp add: cb feed_append st split: sum.splits)
  then have "HocrParser_init xml l t =
          Inl (case feed (fresh l t) pre of Inl e \<Rightarrow> e | Inr s \<Rightarrow> KeyError)"
    by (simp add: HocrParser_init_def Parse_def)
  moreover have "startElement self ''span'' a' = Inr self"
    using other by (simp add: startElement_def)
  ultimately show ?thesis using st by simp
qed

theorem span_without_class_raises_witness:
  "startElement (fresh 0 0) ''span'' Map.empty = Inl KeyError \<and>
   HocrParser_init no_class_markup 0 0 = Inl KeyError \<and>
   startElement (fresh 0 0) ''span'' [''class'' \<mapsto> ''ocr_page''] = Inr (fresh 0 0)"
proof -
  define pre where "pre = [StartElement ''p'' Map.empty]"
  define post where "post = [CharacterData ''Hi'', EndElement ''span'', EndElement ''p'']"
  define a :: attrs where "a = Map.empty"
  define a' :: attrs where "a' = [''class'' \<mapsto> ''ocr_page'']"
  have h1: "callbacks no_class_markup = pre @ StartElement ''span'' a # post"
    by (simp add: no_class_markup_def pre_def post_def a_def)
  have h2: "a ''class'' = None" by (simp add: a_def)
  have h3: "a' ''class'' = Some ''ocr_page''" by (simp add: a'_def)
  have h4: "''ocr_page'' \<noteq> ''ocr_line''" by simp
  have h5: "''ocr_page'' \<noteq> ''ocr_word''" by simp
  have f: "feed (fresh 0 0) pre = Inr (fresh 0 0)"
    by (simp add: pre_def run_simps)
  from span_without_class_raises[where a' = a' and self = "fresh 0 0" and l = 0 and t = 0,
      OF h1 h2 h3 h4 h5] f
  show ?thesis by (simp add: a_def a'_def)
qed

end
